theory Spec2Isabelle
  imports Main
begin

section \<open>JavaScript strings\<close>

text \<open>
  A JavaScript string is a sequence of UTF-16 code units. The reqline text is modelled
  as a \<open>string\<close> whose characters are the code units \<open>0x00\<close> to \<open>0xFF\<close> (one
  \<open>char\<close> per code unit), so the model covers every reqline written in Latin-1.
  The functions below are the built-in string methods the validator and the executor call,
  with the semantics of ECMAScript on such strings.
\<close>

definition isWhiteSpace :: "char \<Rightarrow> bool" where
  \<comment> \<open>WhiteSpace and LineTerminator code units below 256: TAB, LF, VT, FF, CR, SP, NBSP.\<close>
  "isWhiteSpace c =
     (c = CHR 0x09 \<or> c = CHR 0x0A \<or> c = CHR 0x0B \<or> c = CHR 0x0C \<or> c = CHR 0x0D
      \<or> c = CHR '' '' \<or> c = CHR 0xA0)"

definition trim :: "string \<Rightarrow> string" where
  "trim s = rev (dropWhile isWhiteSpace (rev (dropWhile isWhiteSpace s)))"

definition startsWith :: "string \<Rightarrow> string \<Rightarrow> bool" where
  "startsWith s p = (take (length p) s = p)"

definition endsWith :: "string \<Rightarrow> string \<Rightarrow> bool" where
  "endsWith s p = (length p \<le> length s \<and> drop (length s - length p) s = p)"

fun indexOf_from :: "string \<Rightarrow> string \<Rightarrow> nat \<Rightarrow> int" where
  "indexOf_from [] p i = (if p = [] then int i else - 1)"
| "indexOf_from (c # t) p i =
     (if startsWith (c # t) p then int i else indexOf_from t p (Suc i))"

definition indexOf :: "string \<Rightarrow> string \<Rightarrow> int" where
  \<comment> \<open>\<open>s.indexOf(p)\<close>: the first position where \<open>p\<close> occurs, \<open>-1\<close> when it does not.\<close>
  "indexOf s p = indexOf_from s p 0"

definition includes_str :: "string \<Rightarrow> string \<Rightarrow> bool" where
  \<comment> \<open>\<open>s.includes(p)\<close> on strings.\<close>
  "includes_str s p = (indexOf s p \<noteq> - 1)"

fun split_str :: "string \<Rightarrow> char \<Rightarrow> string list" where
  \<comment> \<open>\<open>s.split(sep)\<close> for a separator of one character; never the empty list.\<close>
  "split_str [] sep = [[]]"
| "split_str (c # cs) sep =
     (if c = sep then [] # split_str cs sep
      else (case split_str cs sep of
              [] \<Rightarrow> [[c]]
            | w # ws \<Rightarrow> (c # w) # ws))"

definition substring :: "string \<Rightarrow> int \<Rightarrow> int \<Rightarrow> string" where
  \<comment> \<open>\<open>s.substring(start, end)\<close>: both indices clamped to \<open>0..length\<close>, swapped when
      \<open>start > end\<close>.\<close>
  "substring s start stop =
     (let n = int (length s);
          a = max 0 (min start n);
          b = max 0 (min stop n);
          lo = min a b;
          hi = max a b
      in take (nat (hi - lo)) (drop (nat lo) s))"

definition substring_from :: "string \<Rightarrow> int \<Rightarrow> string" where
  \<comment> \<open>\<open>s.substring(start)\<close>.\<close>
  "substring_from s start = substring s start (int (length s))"

definition upperUnits :: "char \<Rightarrow> nat list" where
  \<comment> \<open>The code units of the upper-case form of one Latin-1 character (Unicode default
      case conversion): \<open>a-z\<close> and \<open>0xE0-0xFE\<close> except the division sign move down
      by 32, the micro sign becomes Greek capital mu, sharp s becomes \<open>SS\<close>, y with
      diaeresis becomes \<open>U+0178\<close>; every other character is unchanged.\<close>
  "upperUnits c =
     (let n = (of_char c :: nat)
      in if 97 \<le> n \<and> n \<le> 122 then [n - 32]
         else if n = 181 then [924]
         else if n = 223 then [83, 83]
         else if 224 \<le> n \<and> n \<le> 254 \<and> n \<noteq> 247 then [n - 32]
         else if n = 255 then [376]
         else [n])"

definition units :: "string \<Rightarrow> nat list" where
  "units s = map of_char s"

definition toUpperCase :: "string \<Rightarrow> nat list" where
  \<comment> \<open>\<open>s.toUpperCase()\<close>, as code units: the result may leave Latin-1.\<close>
  "toUpperCase s = concat (map upperUnits s)"

definition isUpperCase :: "string \<Rightarrow> bool" where
  \<comment> \<open>The source's test \<open>s === s.toUpperCase()\<close>.\<close>
  "isUpperCase s = (units s = toUpperCase s)"

section \<open>Errors and messages\<close>

datatype error_code = VALIDATIONERR | APPERR

datatype app_error = AppError (message: string) (code: error_code)

definition throwAppError :: "string \<Rightarrow> error_code \<Rightarrow> app_error + 'a" where
  \<comment> \<open>Modelled from the spec: \<open>throwAppError\<close> of \<open>@app-core/errors\<close> is not part of
      the sources; it raises an error carrying the message and the code it is given.\<close>
  "throwAppError m c = Inl (AppError m c)"

datatype reqline_message =
    MISSING_HTTP_KEYWORD
  | MISSING_URL_KEYWORD
  | INVALID_HTTP_METHOD
  | HTTP_METHOD_MUST_BE_UPPERCASE
  | KEYWORDS_MUST_BE_UPPERCASE
  | MISSING_SPACE_AFTER_KEYWORD
  | MULTIPLE_SPACES_FOUND
  | INVALID_SPACING_AROUND_PIPE
  | INVALID_JSON_FORMAT_HEADERS
  | INVALID_JSON_FORMAT_QUERY
  | INVALID_JSON_FORMAT_BODY
  | EMPTY_REQLINE
  | HTTP_MUST_BE_FIRST
  | URL_MUST_BE_SECOND
  | DUPLICATE_HTTP_KEYWORD
  | DUPLICATE_URL_KEYWORD
  | INVALID_URL_FORMAT
  | UNKNOWN_KEYWORD
  | MISSING_PIPE_DELIMITER

fun ReqlineMessages :: "reqline_message \<Rightarrow> string" where
  "ReqlineMessages MISSING_HTTP_KEYWORD = ''Missing required HTTP keyword''"
| "ReqlineMessages MISSING_URL_KEYWORD = ''Missing required URL keyword''"
| "ReqlineMessages INVALID_HTTP_METHOD = ''Invalid HTTP method. Only GET and POST are supported''"
| "ReqlineMessages HTTP_METHOD_MUST_BE_UPPERCASE = ''HTTP method must be uppercase''"
| "ReqlineMessages KEYWORDS_MUST_BE_UPPERCASE = ''Keywords must be uppercase''"
| "ReqlineMessages MISSING_SPACE_AFTER_KEYWORD = ''Missing space after keyword''"
| "ReqlineMessages MULTIPLE_SPACES_FOUND = ''Multiple spaces found where single space expected''"
| "ReqlineMessages INVALID_SPACING_AROUND_PIPE = ''Invalid spacing around pipe delimiter''"
| "ReqlineMessages INVALID_JSON_FORMAT_HEADERS = ''Invalid JSON format in HEADERS section''"
| "ReqlineMessages INVALID_JSON_FORMAT_QUERY = ''Invalid JSON format in QUERY section''"
| "ReqlineMessages INVALID_JSON_FORMAT_BODY = ''Invalid JSON format in BODY section''"
| "ReqlineMessages EMPTY_REQLINE = ''Reqline string cannot be empty''"
| "ReqlineMessages HTTP_MUST_BE_FIRST = ''HTTP keyword must be first''"
| "ReqlineMessages URL_MUST_BE_SECOND = ''URL keyword must be second''"
| "ReqlineMessages DUPLICATE_HTTP_KEYWORD = ''HTTP keyword can only appear once''"
| "ReqlineMessages DUPLICATE_URL_KEYWORD = ''URL keyword can only appear once''"
| "ReqlineMessages INVALID_URL_FORMAT = ''Invalid URL format''"
| "ReqlineMessages UNKNOWN_KEYWORD = ''Unknown keyword found''"
| "ReqlineMessages MISSING_PIPE_DELIMITER = ''Missing pipe delimiter''"

definition validationError :: "reqline_message \<Rightarrow> app_error + 'a" where
  \<comment> \<open>\<open>throwAppError(ReqlineMessages.K, ERROR_CODE.VALIDATIONERR)\<close>.\<close>
  "validationError k = throwAppError (ReqlineMessages k) VALIDATIONERR"

section \<open>JSON values\<close>

text \<open>
  The values \<open>JSON.parse\<close> returns. A number is an integer that a double holds exactly;
  an object is the list of its own enumerable properties in the order \<open>Object.entries\<close>
  lists them.
\<close>

datatype json =
    JNull
  | JBool bool
  | JNumber int
  | JString string
  | JArray "json list"
  | JObject "(string \<times> json) list"

section \<open>The built-in \<open>JSON.parse\<close>\<close>

text \<open>
  A recursive-descent reader of the JSON grammar of ECMA-404, for the texts whose values
  the datatype above holds: it returns \<open>None\<close> where \<open>JSON.parse\<close> throws a
  \<open>SyntaxError\<close>, and also on a number with a fraction or an exponent, on an integer
  beyond \<open>2^53\<close> and on a \<open>\u\<close> escape above \<open>0xFF\<close>, which are outside the
  fragment modelled. The validator takes \<open>JSON.parse\<close> as a parameter, so nothing
  proved about the validator for every \<open>jsonParse\<close> depends on this fragment.
\<close>

definition isJsonSpace :: "char \<Rightarrow> bool" where
  "isJsonSpace c = (c = CHR '' '' \<or> c = CHR 0x09 \<or> c = CHR 0x0A \<or> c = CHR 0x0D)"

definition skipSpace :: "string \<Rightarrow> string" where
  "skipSpace s = dropWhile isJsonSpace s"

definition isDigit :: "char \<Rightarrow> bool" where
  "isDigit c = (c \<in> set ''0123456789'')"

definition digitValue :: "char \<Rightarrow> int" where
  "digitValue c = of_char c - 48"

definition intOfDigits :: "string \<Rightarrow> int" where
  "intOfDigits ds = foldl (\<lambda>a c. 10 * a + digitValue c) 0 ds"

definition hexValue :: "char \<Rightarrow> nat option" where
  "hexValue c =
     (let n = (of_char c :: nat)
      in if 48 \<le> n \<and> n \<le> 57 then Some (n - 48)
         else if 65 \<le> n \<and> n \<le> 70 then Some (n - 55)
         else if 97 \<le> n \<and> n \<le> 102 then Some (n - 87)
         else None)"

fun hexNumber :: "string \<Rightarrow> nat \<Rightarrow> nat option" where
  "hexNumber [] acc = Some acc"
| "hexNumber (c # cs) acc =
     (case hexValue c of
        None \<Rightarrow> None
      | Some d \<Rightarrow> hexNumber cs (16 * acc + d))"

definition simpleEscape :: "char \<Rightarrow> char option" where
  \<comment> \<open>The character after a backslash, other than \<open>u\<close>.\<close>
  "simpleEscape e =
     (if e = CHR 0x22 then Some (CHR 0x22)
      else if e = CHR 0x5C then Some (CHR 0x5C)
      else if e = CHR ''/'' then Some (CHR ''/'')
      else if e = CHR ''b'' then Some (CHR 0x08)
      else if e = CHR ''f'' then Some (CHR 0x0C)
      else if e = CHR ''n'' then Some (CHR 0x0A)
      else if e = CHR ''r'' then Some (CHR 0x0D)
      else if e = CHR ''t'' then Some (CHR 0x09)
      else None)"

definition consChar :: "char \<Rightarrow> (string \<times> string) option \<Rightarrow> (string \<times> string) option" where
  "consChar c r = (case r of None \<Rightarrow> None | Some (v, rest) \<Rightarrow> Some (c # v, rest))"

fun fuelString :: "nat \<Rightarrow> string \<Rightarrow> (string \<times> string) option" where
  \<comment> \<open>The characters of a string literal after its opening quote, and the text after its
      closing quote.\<close>
  "fuelString 0 s = None"
| "fuelString (Suc n) [] = None"
| "fuelString (Suc n) (c # cs) =
     (if c = CHR 0x22 then Some ([], cs)
      else if c = CHR 0x5C then
        (case cs of
           [] \<Rightarrow> None
         | e # es \<Rightarrow>
             if e = CHR ''u'' then
               (if length es < 4 then None
                else case hexNumber (take 4 es) 0 of
                       None \<Rightarrow> None
                     | Some u \<Rightarrow>
                         if u < 256 then consChar (char_of u) (fuelString n (drop 4 es))
                         else None)
             else (case simpleEscape e of
                     None \<Rightarrow> None
                   | Some x \<Rightarrow> consChar x (fuelString n es)))
      else if (of_char c :: nat) < 32 then None
      else consChar c (fuelString n cs))"

definition parseString :: "string \<Rightarrow> (string \<times> string) option" where
  "parseString s = fuelString (Suc (length s)) s"

definition parseNumber :: "string \<Rightarrow> (json \<times> string) option" where
  "parseNumber s =
     (let negative = startsWith s ''-'';
          t = (if negative then drop 1 s else s);
          ds = takeWhile isDigit t;
          rest = dropWhile isDigit t
      in if ds = [] then None
         else if 1 < length ds \<and> startsWith ds ''0'' then None
         else if startsWith rest ''.'' \<or> startsWith rest ''e'' \<or> startsWith rest ''E'' then None
         else if 2 ^ 53 < intOfDigits ds then None
         else Some (JNumber (if negative then - intOfDigits ds else intOfDigits ds),
                    rest))"

definition isArrayIndex :: "string \<Rightarrow> bool" where
  \<comment> \<open>A property name that is a canonical array index: such names come first, in
      ascending order, when the properties of an object are listed.\<close>
  "isArrayIndex k =
     (k \<noteq> [] \<and> list_all isDigit k \<and> (k = ''0'' \<or> \<not> startsWith k ''0'')
      \<and> intOfDigits k < 2 ^ 32 - 1)"

fun insertIndexKey :: "string \<Rightarrow> json \<Rightarrow> (string \<times> json) list \<Rightarrow> (string \<times> json) list" where
  "insertIndexKey k v [] = [(k, v)]"
| "insertIndexKey k v ((k', v') # es) =
     (if isArrayIndex k' \<and> intOfDigits k' < intOfDigits k then (k', v') # insertIndexKey k v es
      else (k, v) # (k', v') # es)"

definition objectPut :: "(string \<times> json) list \<Rightarrow> string \<times> json \<Rightarrow> (string \<times> json) list" where
  \<comment> \<open>Defining property \<open>k\<close>: an existing property keeps its place and takes the new
      value; a new index name goes among the index names; any other new name goes last.\<close>
  "objectPut es kv =
     (if fst kv \<in> fst ` set es then map (\<lambda>e. if fst e = fst kv then kv else e) es
      else if isArrayIndex (fst kv) then insertIndexKey (fst kv) (snd kv) es
      else es @ [kv])"

definition makeObject :: "(string \<times> json) list \<Rightarrow> json" where
  \<comment> \<open>The object a member list builds, members defined from left to right.\<close>
  "makeObject ms = JObject (foldl objectPut [] ms)"

fun parseValue :: "nat \<Rightarrow> string \<Rightarrow> (json \<times> string) option"
  and parseElements :: "nat \<Rightarrow> string \<Rightarrow> (json list \<times> string) option"
  and parseMembers :: "nat \<Rightarrow> string \<Rightarrow> ((string \<times> json) list \<times> string) option" where
  "parseValue 0 s = None"
| "parseValue (Suc n) s =
     (case skipSpace s of
        [] \<Rightarrow> None
      | c # cs \<Rightarrow>
          if c = CHR ''{'' then
            (if startsWith (skipSpace cs) ''}'' then Some (JObject [], drop 1 (skipSpace cs))
             else case parseMembers n cs of
                    None \<Rightarrow> None
                  | Some (ms, rest) \<Rightarrow> Some (makeObject ms, rest))
          else if c = CHR ''['' then
            (if startsWith (skipSpace cs) '']'' then Some (JArray [], drop 1 (skipSpace cs))
             else case parseElements n cs of
                    None \<Rightarrow> None
                  | Some (vs, rest) \<Rightarrow> Some (JArray vs, rest))
          else if c = CHR 0x22 then
            (case parseString cs of
               None \<Rightarrow> None
             | Some (v, rest) \<Rightarrow> Some (JString v, rest))
          else if startsWith (c # cs) ''true'' then Some (JBool True, drop 4 (c # cs))
          else if startsWith (c # cs) ''false'' then Some (JBool False, drop 5 (c # cs))
          else if startsWith (c # cs) ''null'' then Some (JNull, drop 4 (c # cs))
          else parseNumber (c # cs))"
| "parseElements 0 s = None"
| "parseElements (Suc n) s =
     (case parseValue n s of
        None \<Rightarrow> None
      | Some (v, rest) \<Rightarrow>
          (case skipSpace rest of
             [] \<Rightarrow> None
           | c # cs \<Rightarrow>
               if c = CHR '','' then
                 (case parseElements n cs of
                    None \<Rightarrow> None
                  | Some (vs, rest') \<Rightarrow> Some (v # vs, rest'))
               else if c = CHR '']'' then Some ([v], cs)
               else None))"
| "parseMembers 0 s = None"
| "parseMembers (Suc n) s =
     (case skipSpace s of
        [] \<Rightarrow> None
      | q # qs \<Rightarrow>
          if q \<noteq> CHR 0x22 then None
          else case parseString qs of
                 None \<Rightarrow> None
               | Some (k, rest) \<Rightarrow>
                   (case skipSpace rest of
                      [] \<Rightarrow> None
                    | c # cs \<Rightarrow>
                        if c \<noteq> CHR '':'' then None
                        else case parseValue n cs of
                               None \<Rightarrow> None
                             | Some (v, rest') \<Rightarrow>
                                 (case skipSpace rest' of
                                    [] \<Rightarrow> None
                                  | d # ds \<Rightarrow>
                                      if d = CHR '','' then
                                        (case parseMembers n ds of
                                           None \<Rightarrow> None
                                         | Some (ms, rest'') \<Rightarrow> Some ((k, v) # ms, rest''))
                                      else if d = CHR ''}'' then Some ([(k, v)], ds)
                                      else None)))"

definition JSON_parse :: "string \<Rightarrow> json option" where
  \<comment> \<open>One value, white space around it, nothing after it. Every call spends one unit of
      fuel and at most two calls start at the same character.\<close>
  "JSON_parse s =
     (case parseValue (2 * length s + 2) s of
        None \<Rightarrow> None
      | Some (v, rest) \<Rightarrow> if skipSpace rest = [] then Some v else None)"

section \<open>The validator\<close>

record ParsedRequest =
  "method" :: "string option"
  url :: "string option"
  headers :: json
  query :: json
  body :: json

text \<open>The three variables \<open>parseSegments\<close> updates while it walks the segments.\<close>

record parse_state =
  result :: ParsedRequest
  httpFound :: bool
  urlFound :: bool

fun forEach :: "(nat \<Rightarrow> 'a \<Rightarrow> 's \<Rightarrow> app_error + 's) \<Rightarrow> nat \<Rightarrow> 'a list \<Rightarrow> 's \<Rightarrow> app_error + 's" where
  \<comment> \<open>\<open>array.forEach((element, index) => ...)\<close> from position \<open>i\<close> on, the variables the
      callback assigns threaded through; a throw in the callback ends the loop.\<close>
  "forEach f i [] s = Inr s"
| "forEach f i (x # xs) s =
     (case f i x s of
        Inl e \<Rightarrow> Inl e
      | Inr s' \<Rightarrow> forEach f (Suc i) xs s')"

definition checkPipeSpacing :: "nat \<Rightarrow> nat \<Rightarrow> string \<Rightarrow> unit \<Rightarrow> app_error + unit" where
  \<comment> \<open>The callback of the \<open>forEach\<close> in \<open>splitByPipe\<close>; \<open>len\<close> is \<open>segments.length\<close>.\<close>
  "checkPipeSpacing len index segment u =
     (if index > 0 \<and> \<not> startsWith segment '' '' then
        validationError INVALID_SPACING_AROUND_PIPE
      else if int index < int len - 1 \<and> \<not> endsWith segment '' '' then
        validationError INVALID_SPACING_AROUND_PIPE
      else Inr ())"

definition splitByPipe :: "string \<Rightarrow> app_error + string list" where
  "splitByPipe str =
     (if \<not> includes_str str ''|'' then
        (let words = split_str str (CHR '' '');
             hasHttpKeyword = (''HTTP'' \<in> set words \<or> ''http'' \<in> set words);
             hasUrlKeyword = (''URL'' \<in> set words \<or> ''url'' \<in> set words)
         in if \<not> hasHttpKeyword then validationError MISSING_HTTP_KEYWORD
            else if \<not> hasUrlKeyword then validationError MISSING_URL_KEYWORD
            else validationError MISSING_PIPE_DELIMITER)
      else
        (let segments = split_str str (CHR ''|'')
         in case forEach (checkPipeSpacing (length segments)) 0 segments () of
              Inl e \<Rightarrow> Inl e
            | Inr _ \<Rightarrow> Inr (map trim segments)))"

definition parseSegmentParts :: "string \<Rightarrow> app_error + (string \<times> string)" where
  \<comment> \<open>Returns the pair \<open>(keyword, value)\<close>.\<close>
  "parseSegmentParts segment =
     (let spaceIndex = indexOf segment '' ''
      in if spaceIndex = - 1 then validationError MISSING_SPACE_AFTER_KEYWORD
         else
           (let keyword = substring segment 0 spaceIndex;
                val = substring_from segment (spaceIndex + 1)
            in if \<not> isUpperCase keyword then validationError KEYWORDS_MUST_BE_UPPERCASE
               else if indexOf segment ''  '' \<noteq> - 1 then validationError MULTIPLE_SPACES_FOUND
               else Inr (keyword, val)))"

definition validateHttpMethod :: "string \<Rightarrow> app_error + unit" where
  "validateHttpMethod m =
     (if \<not> isUpperCase m then validationError HTTP_METHOD_MUST_BE_UPPERCASE
      else if m \<notin> set [''GET'', ''POST''] then validationError INVALID_HTTP_METHOD
      else Inr ())"

definition validateUrl :: "string \<Rightarrow> app_error + unit" where
  \<comment> \<open>The argument is always a string here, so \<open>!url || typeof url !== 'string'\<close> is the
      test for the empty string.\<close>
  "validateUrl u =
     (if u = [] then validationError INVALID_URL_FORMAT
      else if \<not> startsWith u ''http://'' \<and> \<not> startsWith u ''https://'' then
        validationError INVALID_URL_FORMAT
      else
        (let protocolEndIndex = indexOf u ''://''
         in if protocolEndIndex = - 1 \<or> int (length u) \<le> protocolEndIndex + 3 then
              validationError INVALID_URL_FORMAT
            else Inr ()))"

definition jsonFormatMessage :: "string \<Rightarrow> string" where
  \<comment> \<open>\<open>ReqlineMessages[`INVALID_JSON_FORMAT_${fieldName}`]\<close>. The table has an entry for
      the three field names \<open>parseSegments\<close> passes; for any other name the lookup is
      \<open>undefined\<close>, which the empty string stands for.\<close>
  "jsonFormatMessage fieldName =
     (if fieldName = ''HEADERS'' then ReqlineMessages INVALID_JSON_FORMAT_HEADERS
      else if fieldName = ''QUERY'' then ReqlineMessages INVALID_JSON_FORMAT_QUERY
      else if fieldName = ''BODY'' then ReqlineMessages INVALID_JSON_FORMAT_BODY
      else [])"

definition parseJsonValue :: "(string \<Rightarrow> json option) \<Rightarrow> string \<Rightarrow> string \<Rightarrow> app_error + json" where
  \<comment> \<open>\<open>jsonParse\<close> is the built-in \<open>JSON.parse\<close>: \<open>None\<close> when it throws.\<close>
  "parseJsonValue jsonParse val fieldName =
     (case jsonParse val of
        Some v \<Rightarrow> Inr v
      | None \<Rightarrow> throwAppError (jsonFormatMessage fieldName) VALIDATIONERR)"

definition parseSegment :: "(string \<Rightarrow> json option) \<Rightarrow> nat \<Rightarrow> string \<Rightarrow> parse_state \<Rightarrow> app_error + parse_state" where
  \<comment> \<open>The callback of the \<open>forEach\<close> in \<open>parseSegments\<close>.\<close>
  "parseSegment jsonParse index segment st =
     (if segment = [] then validationError INVALID_SPACING_AROUND_PIPE
      else case parseSegmentParts segment of
        Inl e \<Rightarrow> Inl e
      | Inr (keyword, val) \<Rightarrow>
          if keyword = ''HTTP'' then
            (if httpFound st then validationError DUPLICATE_HTTP_KEYWORD
             else if index \<noteq> 0 then validationError HTTP_MUST_BE_FIRST
             else case validateHttpMethod val of
                    Inl e \<Rightarrow> Inl e
                  | Inr _ \<Rightarrow> Inr (st\<lparr>result := (result st)\<lparr>method := Some val\<rparr>, httpFound := True\<rparr>))
          else if keyword = ''URL'' then
            (if urlFound st then validationError DUPLICATE_URL_KEYWORD
             else if index \<noteq> 1 then validationError URL_MUST_BE_SECOND
             else case validateUrl val of
                    Inl e \<Rightarrow> Inl e
                  | Inr _ \<Rightarrow> Inr (st\<lparr>result := (result st)\<lparr>url := Some val\<rparr>, urlFound := True\<rparr>))
          else if keyword = ''HEADERS'' then
            (case parseJsonValue jsonParse val ''HEADERS'' of
               Inl e \<Rightarrow> Inl e
             | Inr v \<Rightarrow> Inr (st\<lparr>result := (result st)\<lparr>headers := v\<rparr>\<rparr>))
          else if keyword = ''QUERY'' then
            (case parseJsonValue jsonParse val ''QUERY'' of
               Inl e \<Rightarrow> Inl e
             | Inr v \<Rightarrow> Inr (st\<lparr>result := (result st)\<lparr>query := v\<rparr>\<rparr>))
          else if keyword = ''BODY'' then
            (case parseJsonValue jsonParse val ''BODY'' of
               Inl e \<Rightarrow> Inl e
             | Inr v \<Rightarrow> Inr (st\<lparr>result := (result st)\<lparr>body := v\<rparr>\<rparr>))
          else validationError UNKNOWN_KEYWORD)"

definition initialState :: parse_state where
  "initialState =
     \<lparr>result = \<lparr>method = None, url = None, headers = JObject [], query = JObject [],
                 body = JObject []\<rparr>,
      httpFound = False, urlFound = False\<rparr>"

definition parseSegments :: "(string \<Rightarrow> json option) \<Rightarrow> string list \<Rightarrow> app_error + ParsedRequest" where
  "parseSegments jsonParse segments =
     (case forEach (parseSegment jsonParse) 0 segments initialState of
        Inl e \<Rightarrow> Inl e
      | Inr st \<Rightarrow>
          if \<not> httpFound st then validationError MISSING_HTTP_KEYWORD
          else if \<not> urlFound st then validationError MISSING_URL_KEYWORD
          else Inr (result st))"

definition parseReqlineSyntax :: "(string \<Rightarrow> json option) \<Rightarrow> string \<Rightarrow> app_error + ParsedRequest" where
  "parseReqlineSyntax jsonParse reqlineString =
     (let cleaned = trim reqlineString
      in if cleaned = [] then validationError EMPTY_REQLINE
         else case splitByPipe cleaned of
                Inl e \<Rightarrow> Inl e
              | Inr segments \<Rightarrow> parseSegments jsonParse segments)"

section \<open>The executor\<close>

subsection \<open>Built-in conversions\<close>

fun join_str :: "string list \<Rightarrow> string \<Rightarrow> string" where
  \<comment> \<open>\<open>array.join(sep)\<close> on an array of strings.\<close>
  "join_str [] sep = []"
| "join_str [x] sep = x"
| "join_str (x # y # ys) sep = x @ sep @ join_str (y # ys) sep"

fun natToString :: "nat \<Rightarrow> string" where
  "natToString n =
     (if n < 10 then [char_of (48 + n)]
      else natToString (n div 10) @ [char_of (48 + n mod 10)])"

definition intToString :: "int \<Rightarrow> string" where
  "intToString i = (if i < 0 then ''-'' @ natToString (nat (- i)) else natToString (nat i))"

fun ToString :: "json \<Rightarrow> string" where
  \<comment> \<open>The string conversion \<open>encodeURIComponent\<close> applies to its argument.\<close>
  "ToString JNull = ''null''"
| "ToString (JBool b) = (if b then ''true'' else ''false'')"
| "ToString (JNumber i) = intToString i"
| "ToString (JString s) = s"
| "ToString (JArray xs) = join_str (map (\<lambda>x. if x = JNull then [] else ToString x) xs) '',''"
| "ToString (JObject es) = ''[object Object]''"

definition truthy :: "json \<Rightarrow> bool" where
  "truthy v =
     (case v of
        JNull \<Rightarrow> False
      | JBool b \<Rightarrow> b
      | JNumber i \<Rightarrow> i \<noteq> 0
      | JString s \<Rightarrow> s \<noteq> []
      | JArray xs \<Rightarrow> True
      | JObject es \<Rightarrow> True)"

definition Object_entries :: "json \<Rightarrow> (string \<times> json) list" where
  \<comment> \<open>\<open>Object.entries(v)\<close> for a value other than \<open>null\<close>: the properties of an object,
      the indexed elements of an array or of a string, nothing for a number or a boolean.\<close>
  "Object_entries v =
     (case v of
        JObject es \<Rightarrow> es
      | JArray xs \<Rightarrow> zip (map natToString [0 ..< length xs]) xs
      | JString s \<Rightarrow> zip (map natToString [0 ..< length s]) (map (\<lambda>c. JString [c]) s)
      | _ \<Rightarrow> [])"

definition Object_keys :: "json \<Rightarrow> string list" where
  "Object_keys v = map fst (Object_entries v)"

definition isUnreserved :: "char \<Rightarrow> bool" where
  \<comment> \<open>The characters \<open>encodeURIComponent\<close> leaves as they are: letters, digits and
      \<open>- _ . ! ~ * ' ( )\<close>.\<close>
  "isUnreserved c =
     (c \<in> set ''ABCDEFGHIJKLMNOPQRSTUVWXYZabcdefghijklmnopqrstuvwxyz0123456789-_.!~*()''
      \<or> c = CHR 0x27)"

definition hexDigit :: "nat \<Rightarrow> char" where
  "hexDigit d = (if d < 10 then char_of (48 + d) else char_of (55 + d))"

definition percentByte :: "nat \<Rightarrow> string" where
  "percentByte b = [CHR ''%'', hexDigit (b div 16), hexDigit (b mod 16)]"

definition encodeUnit :: "char \<Rightarrow> string" where
  \<comment> \<open>One code unit below 256: kept, or the bytes of its UTF-8 form percent-encoded.\<close>
  "encodeUnit c =
     (let n = (of_char c :: nat)
      in if isUnreserved c then [c]
         else if n < 128 then percentByte n
         else percentByte (192 + n div 64) @ percentByte (128 + n mod 64))"

definition encodeURIComponent :: "string \<Rightarrow> string" where
  "encodeURIComponent s = concat (map encodeUnit s)"

subsection \<open>\<open>buildFullUrl\<close>\<close>

definition buildFullUrl :: "string \<Rightarrow> json \<Rightarrow> string" where
  \<comment> \<open>On a base url that is a string.\<close>
  "buildFullUrl baseUrl queryParams =
     (if \<not> truthy queryParams \<or> length (Object_keys queryParams) = 0 then baseUrl
      else
        (let queryString =
               join_str (map (\<lambda>(key, val). encodeURIComponent key @ ''=''
                                            @ encodeURIComponent (ToString val))
                             (Object_entries queryParams)) ''&'';
             separator = (if includes_str baseUrl ''?'' then ''&'' else ''?'')
         in baseUrl @ separator @ queryString))"

subsection \<open>The world outside\<close>

text \<open>
  The response object of the HTTP client, the error it rejects with, and the two ways a
  call settles. A field that is \<open>undefined\<close> is \<open>None\<close>.
\<close>

record http_response =
  statusCode :: "int option"
  status :: "int option"
  data :: "json option"

record http_error =
  error_message :: string
  error_response :: "http_response option"

datatype http_outcome = Resolved http_response | Rejected http_error

record request_config =
  config_headers :: json
  config_timeout :: nat

datatype type_error = IncludesOfNull | StatusCodeOfUndefined

text \<open>
  What one execution reads from outside: the successive results of \<open>Date.now()\<close>, how
  the HTTP client settles a call, and the engine's wording of a \<open>TypeError\<close>.
\<close>

record environment =
  now :: "nat \<Rightarrow> int"
  http_get :: "string option \<Rightarrow> request_config \<Rightarrow> http_outcome"
  http_post :: "string option \<Rightarrow> json \<Rightarrow> request_config \<Rightarrow> http_outcome"
  type_error_message :: "type_error \<Rightarrow> string"

subsection \<open>\<open>executeRequest\<close>\<close>

record request_info =
  req_query :: json
  req_body :: json
  req_headers :: json
  full_url :: "string option"

record response_info =
  http_status :: "int option"
  duration :: int
  request_start_timestamp :: int
  request_stop_timestamp :: int
  response_data :: "json option"

record ExecutionResult =
  request :: request_info
  response :: response_info

definition orElse :: "int option \<Rightarrow> int option \<Rightarrow> int option" where
  \<comment> \<open>\<open>a || b\<close> on status codes: \<open>a\<close> when it is defined and not zero.\<close>
  "orElse a b = (case a of Some n \<Rightarrow> if n \<noteq> 0 then a else b | None \<Rightarrow> b)"

definition orNull :: "json option \<Rightarrow> json option" where
  \<comment> \<open>\<open>d || null\<close>.\<close>
  "orNull d = (case d of Some v \<Rightarrow> if truthy v then Some v else Some JNull | None \<Rightarrow> Some JNull)"

definition fullUrlOf :: "ParsedRequest \<Rightarrow> type_error + string option" where
  \<comment> \<open>\<open>this.buildFullUrl(parsedRequest.url, parsedRequest.query)\<close>, the url possibly
      \<open>null\<close>: a \<open>null\<close> base is returned as it is for an empty query, and
      \<open>baseUrl.includes\<close> raises a \<open>TypeError\<close> on it otherwise.\<close>
  "fullUrlOf p =
     (case url p of
        Some u \<Rightarrow> Inr (Some (buildFullUrl u (query p)))
      | None \<Rightarrow>
          if \<not> truthy (query p) \<or> length (Object_keys (query p)) = 0 then Inr None
          else Inl IncludesOfNull)"

definition requestOf :: "ParsedRequest \<Rightarrow> string option \<Rightarrow> request_info" where
  "requestOf p fullUrl =
     \<lparr>req_query = query p, req_body = body p, req_headers = headers p, full_url = fullUrl\<rparr>"

definition executionFailed :: "string \<Rightarrow> app_error + ExecutionResult" where
  "executionFailed m = throwAppError (''Request execution failed: '' @ m) APPERR"

definition executeRequest :: "environment \<Rightarrow> ParsedRequest \<Rightarrow> app_error + ExecutionResult" where
  "executeRequest env parsedRequest =
     (let startTimestamp = now env 0
      in case fullUrlOf parsedRequest of
           Inl t \<Rightarrow> executionFailed (type_error_message env t)
         | Inr fullUrl \<Rightarrow>
             (let requestConfig =
                    \<lparr>config_headers = headers parsedRequest, config_timeout = 10000\<rparr>;
                  settled =
                    (if method parsedRequest = Some ''GET'' then
                       Some (http_get env fullUrl requestConfig)
                     else if method parsedRequest = Some ''POST'' then
                       Some (http_post env fullUrl (body parsedRequest) requestConfig)
                     else None)
              in case settled of
                   None \<Rightarrow> executionFailed (type_error_message env StatusCodeOfUndefined)
                 | Some (Resolved resp) \<Rightarrow>
                     (let stopTimestamp = now env 1;
                          dur = stopTimestamp - startTimestamp
                      in Inr \<lparr>request = requestOf parsedRequest fullUrl,
                              response =
                                \<lparr>http_status =
                                   orElse (orElse (statusCode resp) (status resp)) (Some 200),
                                 duration = dur,
                                 request_start_timestamp = startTimestamp,
                                 request_stop_timestamp = stopTimestamp,
                                 response_data = data resp\<rparr>\<rparr>)
                 | Some (Rejected err) \<Rightarrow>
                     (let stopTimestamp = now env 1;
                          dur = stopTimestamp - startTimestamp
                      in case error_response err of
                           Some r \<Rightarrow>
                             (case fullUrlOf parsedRequest of
                                Inl t \<Rightarrow> executionFailed (type_error_message env t)
                              | Inr fullUrl' \<Rightarrow>
                                  Inr \<lparr>request = requestOf parsedRequest fullUrl',
                                       response =
                                         \<lparr>http_status = orElse (statusCode r) (status r),
                                          duration = dur,
                                          request_start_timestamp = startTimestamp,
                                          request_stop_timestamp = stopTimestamp,
                                          response_data = orNull (data r)\<rparr>\<rparr>)
                         | None \<Rightarrow> executionFailed (error_message err))))"

definition parseAndExecute :: "(string \<Rightarrow> json option) \<Rightarrow> environment \<Rightarrow> string \<Rightarrow> app_error + ExecutionResult" where
  \<comment> \<open>\<open>parseAndExecute\<close> once the outer shape check has handed over the \<open>reqline\<close> string.\<close>
  "parseAndExecute jsonParse env reqline =
     (case parseReqlineSyntax jsonParse reqline of
        Inl e \<Rightarrow> Inl e
      | Inr parsedRequest \<Rightarrow> executeRequest env parsedRequest)"

section \<open>Facts about the string functions\<close>

lemma indexOf_from_char:
  "indexOf_from s [c] i =
     (if c \<in> set s then int (i + length (takeWhile (\<lambda>x. x \<noteq> c) s)) else - 1)"
  by (induction s arbitrary: i) (auto simp: startsWith_def)

lemma indexOf_char:
  "indexOf s [c] = (if c \<in> set s then int (length (takeWhile (\<lambda>x. x \<noteq> c) s)) else - 1)"
  by (simp add: indexOf_def indexOf_from_char)


lemma substring_take:
  assumes "0 \<le> i" and "nat i \<le> length s"
  shows "substring s 0 i = take (nat i) s"
proof -
  from assms have "i \<le> int (length s)" by linarith
  with assms show ?thesis by (simp add: substring_def Let_def min_def max_def)
qed

lemma substring_from_drop: "0 \<le> i \<Longrightarrow> substring_from s i = drop (nat i) s"
  by (auto simp: substring_from_def substring_def Let_def min_def max_def)

lemma parseSegmentParts_Inr:
  "parseSegmentParts seg = Inr (k, v) \<longleftrightarrow>
     (CHR '' '' \<in> set seg \<and> k = takeWhile (\<lambda>x. x \<noteq> CHR '' '') seg
      \<and> v = drop 1 (dropWhile (\<lambda>x. x \<noteq> CHR '' '') seg)
      \<and> isUpperCase k \<and> indexOf seg ''  '' = - 1)"
proof (cases "CHR '' '' \<in> set seg")
  case False
  then have "parseSegmentParts seg = validationError MISSING_SPACE_AFTER_KEYWORD"
    unfolding parseSegmentParts_def Let_def indexOf_char by simp
  with False show ?thesis
    by (simp add: validationError_def throwAppError_def)
next
  case True
  let ?n = "length (takeWhile (\<lambda>x. x \<noteq> CHR '' '') seg)"
  have 1: "substring seg 0 (int ?n) = takeWhile (\<lambda>x. x \<noteq> CHR '' '') seg"
    using substring_take[of "int ?n" seg] takeWhile_eq_take[of "\<lambda>x. x \<noteq> CHR '' ''" seg]
    by (simp add: length_takeWhile_le)
  have 2: "substring_from seg (int ?n + 1) = drop 1 (dropWhile (\<lambda>x. x \<noteq> CHR '' '') seg)"
    using substring_from_drop[of "int ?n + 1" seg] dropWhile_eq_drop[of "\<lambda>x. x \<noteq> CHR '' ''" seg]
    by (simp add: nat_add_distrib)
  have "parseSegmentParts seg =
          (if \<not> isUpperCase (takeWhile (\<lambda>x. x \<noteq> CHR '' '') seg)
           then validationError KEYWORDS_MUST_BE_UPPERCASE
           else if indexOf seg ''  '' \<noteq> - 1 then validationError MULTIPLE_SPACES_FOUND
           else Inr (takeWhile (\<lambda>x. x \<noteq> CHR '' '') seg,
                     drop 1 (dropWhile (\<lambda>x. x \<noteq> CHR '' '') seg)))"
    unfolding parseSegmentParts_def Let_def indexOf_char using True 1 2 by simp
  then show ?thesis using True
    by (auto simp: validationError_def throwAppError_def)
qed

lemma parseSegmentParts_shape:
  assumes "parseSegmentParts seg = Inr (k, v)"
  shows "seg = k @ CHR '' '' # v" and "CHR '' '' \<notin> set k"
proof -
  from assms have sp: "CHR '' '' \<in> set seg"
    and k: "k = takeWhile (\<lambda>x. x \<noteq> CHR '' '') seg"
    and v: "v = drop 1 (dropWhile (\<lambda>x. x \<noteq> CHR '' '') seg)"
    by (simp_all add: parseSegmentParts_Inr)
  from sp have "dropWhile (\<lambda>x. x \<noteq> CHR '' '') seg \<noteq> []" by simp
  moreover have "hd (dropWhile (\<lambda>x. x \<noteq> CHR '' '') seg) = CHR '' ''"
    using sp hd_dropWhile[of "\<lambda>x. x \<noteq> CHR '' ''" seg] by simp
  ultimately have "dropWhile (\<lambda>x. x \<noteq> CHR '' '') seg = CHR '' '' # v"
    using v by (cases "dropWhile (\<lambda>x. x \<noteq> CHR '' '') seg") auto
  then show "seg = k @ CHR '' '' # v"
    using k takeWhile_dropWhile_id[of "\<lambda>x. x \<noteq> CHR '' ''" seg] by simp
  show "CHR '' '' \<notin> set k" using k by (auto dest: set_takeWhileD)
qed

lemma trim_last: "trim s \<noteq> [] \<Longrightarrow> \<not> isWhiteSpace (last (trim s))"
proof -
  assume a: "trim s \<noteq> []"
  let ?r = "dropWhile isWhiteSpace (rev (dropWhile isWhiteSpace s))"
  from a have ne: "?r \<noteq> []" by (simp add: trim_def)
  then have "\<not> isWhiteSpace (hd ?r)" by (rule hd_dropWhile)
  moreover have "last (trim s) = hd ?r" using ne by (simp add: trim_def last_rev)
  ultimately show ?thesis by simp
qed


lemma value_nonempty:
  assumes "parseSegmentParts (trim piece) = Inr (k, v)"
  shows "v \<noteq> []"
proof
  assume "v = []"
  with parseSegmentParts_shape(1)[OF assms] have e: "trim piece = k @ [CHR '' '']" by simp
  then have "trim piece \<noteq> []" and "last (trim piece) = CHR '' ''" by simp_all
  with trim_last[of piece] show False by (simp add: isWhiteSpace_def)
qed

section \<open>Facts about the two loops of the validator\<close>

lemma forEach_append:
  "forEach f i (xs @ ys) s =
     (case forEach f i xs s of Inl e \<Rightarrow> Inl e | Inr s' \<Rightarrow> forEach f (i + length xs) ys s')"
  by (induction xs arbitrary: i s) (auto split: sum.splits)

lemma forEach_Inr_nth:
  assumes "forEach f i xs s = Inr s'" and "k < length xs"
  shows "\<exists>t t'. forEach f i (take k xs) s = Inr t \<and> f (i + k) (xs ! k) t = Inr t'
           \<and> forEach f (Suc (i + k)) (drop (Suc k) xs) t' = Inr s'"
proof -
  have "xs = take k xs @ (xs ! k) # drop (Suc k) xs"
    using assms(2) by (simp add: id_take_nth_drop)
  then have "forEach f i (take k xs @ (xs ! k) # drop (Suc k) xs) s = Inr s'"
    using assms(1) by simp
  then show ?thesis
    using assms(2) by (auto simp: forEach_append min_def split: sum.splits)
qed

text \<open>What one accepted segment does to the state.\<close>

lemma parseSegment_Inr:
  assumes "parseSegment jsonParse i seg st = Inr st'"
  shows "\<exists>k v. parseSegmentParts seg = Inr (k, v) \<and>
           ((k = ''HTTP'' \<and> \<not> httpFound st \<and> i = 0 \<and> httpFound st' \<and> urlFound st' = urlFound st
               \<and> method (result st') = Some v \<and> url (result st') = url (result st))
            \<or> (k = ''URL'' \<and> \<not> urlFound st \<and> i = 1 \<and> urlFound st' \<and> httpFound st' = httpFound st
               \<and> url (result st') = Some v \<and> method (result st') = method (result st))
            \<or> (k \<in> {''HEADERS'', ''QUERY'', ''BODY''} \<and> httpFound st' = httpFound st
               \<and> urlFound st' = urlFound st \<and> method (result st') = method (result st)
               \<and> url (result st') = url (result st)))"
proof (cases "parseSegmentParts seg")
  case (Inl e)
  with assms show ?thesis
    by (simp add: parseSegment_def validationError_def throwAppError_def split: if_splits)
next
  case (Inr kv)
  obtain k v where kv: "kv = (k, v)" by (cases kv)
  from assms Inr kv show ?thesis
    unfolding parseSegment_def
    by (auto simp: validationError_def throwAppError_def split: if_splits sum.splits)
qed


lemma forEach_Inl_step:
  "forEach f i xs s = Inl e \<Longrightarrow> \<exists>k t. k < length xs \<and> f (i + k) (xs ! k) t = Inl e"
proof (induction xs arbitrary: i s)
  case Nil
  then show ?case by simp
next
  case (Cons x xs)
  show ?case
  proof (cases "f i x s")
    case (Inl e')
    with Cons.prems have "f (i + 0) ((x # xs) ! 0) s = Inl e" by simp
    then show ?thesis by blast
  next
    case (Inr s')
    with Cons.prems have "forEach f (Suc i) xs s' = Inl e" by simp
    from Cons.IH[OF this] obtain k t where "k < length xs" and "f (Suc i + k) (xs ! k) t = Inl e"
      by blast
    then have "Suc k < length (x # xs)" and "f (i + Suc k) ((x # xs) ! Suc k) t = Inl e"
      by simp_all
    then show ?thesis by blast
  qed
qed

lemma forEach_positions:
  assumes "forEach (parseSegment jsonParse) i xs st = Inr st'" and "k < length xs"
  shows "\<exists>kw v. parseSegmentParts (xs ! k) = Inr (kw, v)
           \<and> kw \<in> {''HTTP'', ''URL'', ''HEADERS'', ''QUERY'', ''BODY''}
           \<and> (kw = ''HTTP'' \<longrightarrow> i + k = 0) \<and> (kw = ''URL'' \<longrightarrow> i + k = 1)"
proof -
  from forEach_Inr_nth[OF assms] obtain t t' where
    "parseSegment jsonParse (i + k) (xs ! k) t = Inr t'" by blast
  from parseSegment_Inr[OF this] show ?thesis by auto
qed

lemma forEach_httpFound:
  "forEach (parseSegment jsonParse) i xs st = Inr st' \<Longrightarrow> httpFound st' \<Longrightarrow>
     (httpFound st \<and> method (result st') = method (result st))
     \<or> (\<exists>k<length xs. \<exists>v. parseSegmentParts (xs ! k) = Inr (''HTTP'', v)
            \<and> method (result st') = Some v)"
proof (induction xs arbitrary: i st)
  case Nil
  then show ?case by simp
next
  case (Cons x xs)
  from Cons.prems(1) obtain t where t: "parseSegment jsonParse i x st = Inr t"
    and rest: "forEach (parseSegment jsonParse) (Suc i) xs t = Inr st'"
    by (auto split: sum.splits)
  from Cons.IH[OF rest Cons.prems(2)] show ?case
  proof
    assume a: "httpFound t \<and> method (result st') = method (result t)"
    from parseSegment_Inr[OF t] obtain k v where kv: "parseSegmentParts x = Inr (k, v)"
      and c: "(k = ''HTTP'' \<and> method (result t) = Some v)
              \<or> (httpFound t = httpFound st \<and> method (result t) = method (result st))"
      by auto
    from c show ?thesis
    proof
      assume "k = ''HTTP'' \<and> method (result t) = Some v"
      with kv a have "0 < length (x # xs) \<and> parseSegmentParts ((x # xs) ! 0) = Inr (''HTTP'', v)
                        \<and> method (result st') = Some v" by simp
      then show ?thesis by blast
    next
      assume "httpFound t = httpFound st \<and> method (result t) = method (result st)"
      with a show ?thesis by simp
    qed
  next
    assume "\<exists>k<length xs. \<exists>v. parseSegmentParts (xs ! k) = Inr (''HTTP'', v)
              \<and> method (result st') = Some v"
    then obtain k v where "k < length xs" and "parseSegmentParts (xs ! k) = Inr (''HTTP'', v)"
      and "method (result st') = Some v" by blast
    then have "Suc k < length (x # xs) \<and> parseSegmentParts ((x # xs) ! Suc k) = Inr (''HTTP'', v)
                 \<and> method (result st') = Some v" by simp
    then show ?thesis by blast
  qed
qed

lemma forEach_urlFound:
  "forEach (parseSegment jsonParse) i xs st = Inr st' \<Longrightarrow> urlFound st' \<Longrightarrow>
     (urlFound st \<and> url (result st') = url (result st))
     \<or> (\<exists>k<length xs. \<exists>v. parseSegmentParts (xs ! k) = Inr (''URL'', v)
            \<and> url (result st') = Some v)"
proof (induction xs arbitrary: i st)
  case Nil
  then show ?case by simp
next
  case (Cons x xs)
  from Cons.prems(1) obtain t where t: "parseSegment jsonParse i x st = Inr t"
    and rest: "forEach (parseSegment jsonParse) (Suc i) xs t = Inr st'"
    by (auto split: sum.splits)
  from Cons.IH[OF rest Cons.prems(2)] show ?case
  proof
    assume a: "urlFound t \<and> url (result st') = url (result t)"
    from parseSegment_Inr[OF t] obtain k v where kv: "parseSegmentParts x = Inr (k, v)"
      and c: "(k = ''URL'' \<and> url (result t) = Some v)
              \<or> (urlFound t = urlFound st \<and> url (result t) = url (result st))"
      by auto
    from c show ?thesis
    proof
      assume "k = ''URL'' \<and> url (result t) = Some v"
      with kv a have "0 < length (x # xs) \<and> parseSegmentParts ((x # xs) ! 0) = Inr (''URL'', v)
                        \<and> url (result st') = Some v" by simp
      then show ?thesis by blast
    next
      assume "urlFound t = urlFound st \<and> url (result t) = url (result st)"
      with a show ?thesis by simp
    qed
  next
    assume "\<exists>k<length xs. \<exists>v. parseSegmentParts (xs ! k) = Inr (''URL'', v)
              \<and> url (result st') = Some v"
    then obtain k v where "k < length xs" and "parseSegmentParts (xs ! k) = Inr (''URL'', v)"
      and "url (result st') = Some v" by blast
    then have "Suc k < length (x # xs) \<and> parseSegmentParts ((x # xs) ! Suc k) = Inr (''URL'', v)
                 \<and> url (result st') = Some v" by simp
    then show ?thesis by blast
  qed
qed

text \<open>The messages the scan of the segments can raise are not those of the final check.\<close>

lemma parseSegment_Inl_message:
  assumes "parseSegment jsonParse i seg st = Inl e"
  shows "message e \<noteq> ReqlineMessages MISSING_HTTP_KEYWORD
         \<and> message e \<noteq> ReqlineMessages MISSING_URL_KEYWORD"
proof (cases "seg = []")
  case True
  with assms show ?thesis
    by (auto simp: parseSegment_def validationError_def throwAppError_def)
next
  case False
  show ?thesis
  proof (cases "parseSegmentParts seg")
    case (Inl e')
    with assms False have "e' = e" by (simp add: parseSegment_def)
    with Inl show ?thesis
      by (auto simp: parseSegmentParts_def Let_def validationError_def throwAppError_def
          split: if_splits)
  next
    case (Inr kv)
    obtain k v where kv: "kv = (k, v)" by (cases kv)
    from assms False Inr kv show ?thesis
      unfolding parseSegment_def
      by (auto simp: validationError_def throwAppError_def validateHttpMethod_def
          validateUrl_def parseJsonValue_def jsonFormatMessage_def Let_def
          split: if_splits sum.splits option.splits)
  qed
qed


lemma splitByPipe_Inr:
  assumes "splitByPipe str = Inr segments"
  shows "segments = map trim (split_str str (CHR ''|''))"
  using assms
  by (auto simp: splitByPipe_def Let_def validationError_def throwAppError_def
      split: if_splits sum.splits)


lemma parseReqlineSyntax_Inr:
  assumes "parseReqlineSyntax jsonParse reqlineString = Inr r"
  shows "\<exists>segments st. trim reqlineString \<noteq> [] \<and> splitByPipe (trim reqlineString) = Inr segments
           \<and> forEach (parseSegment jsonParse) 0 segments initialState = Inr st
           \<and> httpFound st \<and> urlFound st \<and> r = result st"
  using assms
  by (auto simp: parseReqlineSyntax_def parseSegments_def Let_def validationError_def
      throwAppError_def split: if_splits sum.splits)

lemma accepted_positions:
  assumes "parseReqlineSyntax jsonParse reqlineString = Inr r"
  shows "\<exists>segments m u. splitByPipe (trim reqlineString) = Inr segments \<and> 2 \<le> length segments
           \<and> parseSegmentParts (segments ! 0) = Inr (''HTTP'', m)
           \<and> parseSegmentParts (segments ! 1) = Inr (''URL'', u)
           \<and> method r = Some m \<and> url r = Some u
           \<and> (\<forall>i v. i < length segments \<and> parseSegmentParts (segments ! i) = Inr (''HTTP'', v) \<longrightarrow> i = 0)
           \<and> (\<forall>i v. i < length segments \<and> parseSegmentParts (segments ! i) = Inr (''URL'', v) \<longrightarrow> i = 1)"
proof -
  from parseReqlineSyntax_Inr[OF assms] obtain segments st where
    sp: "splitByPipe (trim reqlineString) = Inr segments"
    and fe: "forEach (parseSegment jsonParse) 0 segments initialState = Inr st"
    and hf: "httpFound st" and uf: "urlFound st" and r: "r = result st" by blast
  have pos: "i < length segments \<Longrightarrow> parseSegmentParts (segments ! i) = Inr (kw, v) \<Longrightarrow>
               (kw = ''HTTP'' \<longrightarrow> i = 0) \<and> (kw = ''URL'' \<longrightarrow> i = 1)" for i kw v
    using forEach_positions[OF fe, of i] by auto
  from forEach_httpFound[OF fe hf] obtain k m where k: "k < length segments"
    and km: "parseSegmentParts (segments ! k) = Inr (''HTTP'', m)" and m: "method (result st) = Some m"
    by (auto simp: initialState_def)
  from pos[OF k km] have k0: "k = 0" by simp
  from forEach_urlFound[OF fe uf] obtain j u where j: "j < length segments"
    and ju: "parseSegmentParts (segments ! j) = Inr (''URL'', u)" and u: "url (result st) = Some u"
    by (auto simp: initialState_def)
  from pos[OF j ju] have j1: "j = 1" by simp
  from j j1 have len: "2 \<le> length segments" by simp
  from sp len km k0 ju j1 m u r pos show ?thesis by blast
qed

lemma misplaced_segment:
  assumes ne: "trim reqlineString \<noteq> []"
    and sp: "splitByPipe (trim reqlineString) = Inr segments"
    and i: "i < length segments"
    and before: "forEach (parseSegment jsonParse) 0 (take i segments) initialState = Inr st"
    and at: "parseSegment jsonParse i (segments ! i) st = Inl e"
  shows "parseReqlineSyntax jsonParse reqlineString = Inl e"
proof -
  have "segments = take i segments @ (segments ! i) # drop (Suc i) segments"
    using i by (simp add: id_take_nth_drop)
  then have "forEach (parseSegment jsonParse) 0 segments initialState
             = forEach (parseSegment jsonParse) 0 (take i segments @ (segments ! i) # drop (Suc i) segments) initialState"
    by simp
  also have "\<dots> = Inl e"
    using before at i by (simp add: forEach_append min_def)
  finally show ?thesis
    using ne sp by (simp add: parseReqlineSyntax_def parseSegments_def)
qed

lemma parseSegment_HTTP_misplaced:
  assumes "parseSegmentParts seg = Inr (''HTTP'', v)" and "i \<noteq> 0"
  shows "parseSegment jsonParse i seg st
         = Inl (AppError (ReqlineMessages (if httpFound st then DUPLICATE_HTTP_KEYWORD
                                           else HTTP_MUST_BE_FIRST)) VALIDATIONERR)"
proof -
  from parseSegmentParts_shape(1)[OF assms(1)] have "seg \<noteq> []" by simp
  with assms show ?thesis
    by (simp add: parseSegment_def validationError_def throwAppError_def)
qed

lemma parseSegment_URL_misplaced:
  assumes "parseSegmentParts seg = Inr (''URL'', v)" and "i \<noteq> 1"
  shows "parseSegment jsonParse i seg st
         = Inl (AppError (ReqlineMessages (if urlFound st then DUPLICATE_URL_KEYWORD
                                           else URL_MUST_BE_SECOND)) VALIDATIONERR)"
proof -
  from parseSegmentParts_shape(1)[OF assms(1)] have "seg \<noteq> []" by simp
  with assms show ?thesis
    by (simp add: parseSegment_def validationError_def throwAppError_def)
qed

lemma misplaced_never_deferred:
  assumes ne: "trim reqlineString \<noteq> []"
    and sp: "splitByPipe (trim reqlineString) = Inr segments"
    and i: "i < length segments"
    and at: "(parseSegmentParts (segments ! i) = Inr (''HTTP'', v) \<and> i \<noteq> 0)
             \<or> (parseSegmentParts (segments ! i) = Inr (''URL'', v) \<and> i \<noteq> 1)"
  shows "\<exists>e. parseReqlineSyntax jsonParse reqlineString = Inl e
           \<and> message e \<noteq> ReqlineMessages MISSING_HTTP_KEYWORD
           \<and> message e \<noteq> ReqlineMessages MISSING_URL_KEYWORD"
proof (cases "forEach (parseSegment jsonParse) 0 segments initialState")
  case (Inr st)
  from forEach_positions[OF Inr i] at show ?thesis by auto
next
  case (Inl e)
  from forEach_Inl_step[OF Inl] obtain k t where
    "parseSegment jsonParse (0 + k) (segments ! k) t = Inl e" by blast
  from parseSegment_Inl_message[OF this]
  have "message e \<noteq> ReqlineMessages MISSING_HTTP_KEYWORD
        \<and> message e \<noteq> ReqlineMessages MISSING_URL_KEYWORD" .
  moreover have "parseReqlineSyntax jsonParse reqlineString = Inl e"
    using ne sp Inl by (simp add: parseReqlineSyntax_def parseSegments_def)
  ultimately show ?thesis by blast
qed

lemma takeWhile_prefix_word:
  assumes "CHR '' '' \<notin> set k"
  shows "takeWhile (\<lambda>x. x \<noteq> CHR '' '') (k @ CHR '' '' # rest) = k"
  using assms by (induction k) auto


lemma dropWhile_prefix_word:
  assumes "CHR '' '' \<notin> set k"
  shows "dropWhile (\<lambda>x. x \<noteq> CHR '' '') (k @ CHR '' '' # rest) = CHR '' '' # rest"
  using assms by (induction k) auto

lemma parseSegmentParts_keyword_value:
  assumes "CHR '' '' \<notin> set k" and "isUpperCase k" and "\<not> includes_str (k @ CHR '' '' # v) ''  ''"
  shows "parseSegmentParts (k @ CHR '' '' # v) = Inr (k, v)"
  using assms
  by (simp add: parseSegmentParts_Inr takeWhile_prefix_word dropWhile_prefix_word includes_str_def)

section \<open>Facts about the executor\<close>

lemma executeRequest_Inr:
  assumes "executeRequest env p = Inr res"
  shows "\<exists>fu. fullUrlOf p = Inr fu \<and> request res = requestOf p fu
           \<and> request_start_timestamp (response res) = now env 0
           \<and> request_stop_timestamp (response res) = now env 1
           \<and> duration (response res) = now env 1 - now env 0"
  using assms unfolding executeRequest_def Let_def executionFailed_def throwAppError_def
  by (auto split: sum.splits option.splits http_outcome.splits if_splits)

lemma executeRequest_settled:
  assumes m: "method p = Some ''GET'' \<or> method p = Some ''POST''"
    and fu: "fullUrlOf p = Inr fu"
  shows "executeRequest env p =
     (case (if method p = Some ''GET''
            then http_get env fu \<lparr>config_headers = headers p, config_timeout = 10000\<rparr>
            else http_post env fu (body p) \<lparr>config_headers = headers p, config_timeout = 10000\<rparr>) of
        Resolved resp \<Rightarrow>
          Inr \<lparr>request = requestOf p fu,
               response = \<lparr>http_status = orElse (orElse (statusCode resp) (status resp)) (Some 200),
                           duration = now env 1 - now env 0,
                           request_start_timestamp = now env 0,
                           request_stop_timestamp = now env 1,
                           response_data = data resp\<rparr>\<rparr>
      | Rejected err \<Rightarrow>
          (case error_response err of
             Some r \<Rightarrow>
               Inr \<lparr>request = requestOf p fu,
                    response = \<lparr>http_status = orElse (statusCode r) (status r),
                                duration = now env 1 - now env 0,
                                request_start_timestamp = now env 0,
                                request_stop_timestamp = now env 1,
                                response_data = orNull (data r)\<rparr>\<rparr>
           | None \<Rightarrow> Inl (AppError (''Request execution failed: '' @ error_message err) APPERR)))"
  using m unfolding executeRequest_def Let_def fu executionFailed_def throwAppError_def
  by (auto split: http_outcome.splits option.splits)

section \<open>The claims\<close>

text \<open>
  C1. The claim: each pipe is surrounded by exactly one space, and every input with more
  than one space on a side of a pipe is rejected. \<open>splitByPipe\<close> only tests that a segment
  starts and ends with a space and then trims it, so a run of spaces around the pipe is
  accepted: the reqline below, with two spaces on each side of the pipe, validates.
\<close>

theorem double_space_around_pipe_accepted:
  "parseReqlineSyntax jsonParse ''HTTP GET  |  URL https://example.com''
     = Inr \<lparr>method = Some ''GET'', url = Some ''https://example.com'', headers = JObject [],
            query = JObject [], body = JObject []\<rparr>"
  by code_simp

text \<open>
  C2. Parsing \<open>HTTP GET | URL https://example.com | QUERY {"a":1}\<close> succeeds with
  method \<open>GET\<close>, that url, query \<open>{a: 1}\<close> and empty headers and body. Executing
  that request yields \<open>full_url = "https://example.com?a=1"\<close> in every result it
  produces, in whatever way the HTTP call settles; it produces one whenever the call resolves;
  and the same holds for \<open>parseAndExecute\<close> on the reqline.
\<close>

theorem parse_then_execute_example:
  "parseReqlineSyntax JSON_parse ''HTTP GET | URL https://example.com | QUERY {\"a\":1}''
     = Inr \<lparr>method = Some ''GET'', url = Some ''https://example.com'', headers = JObject [],
            query = JObject [(''a'', JNumber 1)], body = JObject []\<rparr>
   \<and> (executeRequest env
         \<lparr>method = Some ''GET'', url = Some ''https://example.com'', headers = JObject [],
          query = JObject [(''a'', JNumber 1)], body = JObject []\<rparr> = Inr res
        \<longrightarrow> full_url (request res) = Some ''https://example.com?a=1'')
   \<and> (http_get env (Some ''https://example.com?a=1'')
          \<lparr>config_headers = JObject [], config_timeout = 10000\<rparr> = Resolved resp
        \<longrightarrow> (\<exists>res. executeRequest env
                     \<lparr>method = Some ''GET'', url = Some ''https://example.com'',
                      headers = JObject [], query = JObject [(''a'', JNumber 1)],
                      body = JObject []\<rparr> = Inr res))
   \<and> (parseAndExecute JSON_parse env
          ''HTTP GET | URL https://example.com | QUERY {\"a\":1}'' = Inr res
        \<longrightarrow> full_url (request res) = Some ''https://example.com?a=1'')"
proof -
  let ?p = "\<lparr>method = Some ''GET'', url = Some ''https://example.com'', headers = JObject [],
             query = JObject [(''a'', JNumber 1)], body = JObject []\<rparr>"
  have parse: "parseReqlineSyntax JSON_parse ''HTTP GET | URL https://example.com | QUERY {\"a\":1}''
                 = Inr ?p"
    by code_simp
  have fu: "fullUrlOf ?p = Inr (Some ''https://example.com?a=1'')" by code_simp
  have ex: "executeRequest env ?p = Inr res \<Longrightarrow> full_url (request res) = Some ''https://example.com?a=1''"
    for res
    using executeRequest_Inr[of env ?p res] fu by (auto simp: requestOf_def)
  have ok: "http_get env (Some ''https://example.com?a=1'')
          \<lparr>config_headers = JObject [], config_timeout = 10000\<rparr> = Resolved resp
        \<Longrightarrow> \<exists>res. executeRequest env ?p = Inr res"
    using executeRequest_settled[of ?p "Some ''https://example.com?a=1''" env] fu by simp
  have pe: "parseAndExecute JSON_parse env
          ''HTTP GET | URL https://example.com | QUERY {\"a\":1}'' = executeRequest env ?p"
    unfolding parseAndExecute_def parse by simp
  from parse ex ok pe show ?thesis by simp
qed

text \<open>
  A witness for C2: the whole run in a world where the call takes 347 ms and the server
  answers 200.
\<close>

theorem parse_then_execute_example_witness:
  "parseAndExecute JSON_parse
     \<lparr>now = (\<lambda>k. if k = 0 then 1000 else 1347),
       http_get = (\<lambda>u c. Resolved \<lparr>statusCode = None, status = Some 200,
                                     data = Some (JObject [(''id'', JNumber 3)])\<rparr>),
       http_post = (\<lambda>u b c. Rejected \<lparr>error_message = ''timeout of 10000ms exceeded'',
                                       error_response = None\<rparr>),
       type_error_message = (\<lambda>t. [])\<rparr>
     ''HTTP GET | URL https://example.com | QUERY {\"a\":1}''
   = Inr \<lparr>request = \<lparr>req_query = JObject [(''a'', JNumber 1)], req_body = JObject [],
                      req_headers = JObject [], full_url = Some ''https://example.com?a=1''\<rparr>,
          response = \<lparr>http_status = Some 200, duration = 347, request_start_timestamp = 1000,
                       request_stop_timestamp = 1347,
                       response_data = Some (JObject [(''id'', JNumber 3)])\<rparr>\<rparr>"
proof -
  let ?env = "\<lparr>now = (\<lambda>k. if k = 0 then 1000 else (1347::int)),
       http_get = (\<lambda>u c. Resolved \<lparr>statusCode = None, status = Some 200,
                                     data = Some (JObject [(''id'', JNumber 3)])\<rparr>),
       http_post = (\<lambda>u b c. Rejected \<lparr>error_message = ''timeout of 10000ms exceeded'',
                                       error_response = None\<rparr>),
       type_error_message = (\<lambda>t. [])\<rparr>"
  let ?res = "\<lparr>request = \<lparr>req_query = JObject [(''a'', JNumber 1)], req_body = JObject [],
                      req_headers = JObject [], full_url = Some ''https://example.com?a=1''\<rparr>,
          response = \<lparr>http_status = Some 200, duration = 347, request_start_timestamp = 1000,
                       request_stop_timestamp = 1347,
                       response_data = Some (JObject [(''id'', JNumber 3)])\<rparr>\<rparr>"
  have h: "parseAndExecute JSON_parse ?env
     ''HTTP GET | URL https://example.com | QUERY {\"a\":1}'' = Inr ?res"
    by code_simp
  from parse_then_execute_example[of ?env ?res] h
  have "full_url (request ?res) = Some ''https://example.com?a=1''" by blast
  with h show ?thesis by simp
qed




text \<open>
  C4, as amended. In every input that validates, segment 0 has the keyword \<open>HTTP\<close> and
  segment 1 the keyword \<open>URL\<close>, no other segment has either keyword, and \<open>method\<close> and
  \<open>url\<close> are the values of those two segments (not \<open>null\<close>). Conversely, when the scan
  reaches a segment with the keyword \<open>HTTP\<close> at an index other than 0, validation fails
  there with "HTTP keyword can only appear once" if \<open>HTTP\<close> was seen before and with
  "HTTP keyword must be first" otherwise (the same for \<open>URL\<close> and index 1); and an input
  with such a segment always fails with a message raised during the scan, never with one of
  the two messages of the final presence check.
\<close>

theorem http_and_url_positions:
  "(parseReqlineSyntax jsonParse reqlineString = Inr r \<longrightarrow>
      (\<exists>segments m u. splitByPipe (trim reqlineString) = Inr segments \<and> 2 \<le> length segments
         \<and> parseSegmentParts (segments ! 0) = Inr (''HTTP'', m)
         \<and> parseSegmentParts (segments ! 1) = Inr (''URL'', u)
         \<and> method r = Some m \<and> url r = Some u
         \<and> (\<forall>i v. i < length segments \<and> parseSegmentParts (segments ! i) = Inr (''HTTP'', v) \<longrightarrow> i = 0)
         \<and> (\<forall>i v. i < length segments \<and> parseSegmentParts (segments ! i) = Inr (''URL'', v) \<longrightarrow> i = 1)))
   \<and> (trim reqlineString \<noteq> [] \<and> splitByPipe (trim reqlineString) = Inr segs \<and> i < length segs
        \<and> forEach (parseSegment jsonParse) 0 (take i segs) initialState = Inr st
        \<and> parseSegmentParts (segs ! i) = Inr (''HTTP'', v) \<and> i \<noteq> 0 \<longrightarrow>
        parseReqlineSyntax jsonParse reqlineString
          = Inl (AppError (ReqlineMessages (if httpFound st then DUPLICATE_HTTP_KEYWORD
                                            else HTTP_MUST_BE_FIRST)) VALIDATIONERR))
   \<and> (trim reqlineString \<noteq> [] \<and> splitByPipe (trim reqlineString) = Inr segs \<and> i < length segs
        \<and> forEach (parseSegment jsonParse) 0 (take i segs) initialState = Inr st
        \<and> parseSegmentParts (segs ! i) = Inr (''URL'', v) \<and> i \<noteq> 1 \<longrightarrow>
        parseReqlineSyntax jsonParse reqlineString
          = Inl (AppError (ReqlineMessages (if urlFound st then DUPLICATE_URL_KEYWORD
                                            else URL_MUST_BE_SECOND)) VALIDATIONERR))
   \<and> (trim reqlineString \<noteq> [] \<and> splitByPipe (trim reqlineString) = Inr segs \<and> i < length segs
        \<and> ((parseSegmentParts (segs ! i) = Inr (''HTTP'', v) \<and> i \<noteq> 0)
             \<or> (parseSegmentParts (segs ! i) = Inr (''URL'', v) \<and> i \<noteq> 1)) \<longrightarrow>
        (\<exists>e. parseReqlineSyntax jsonParse reqlineString = Inl e
              \<and> message e \<noteq> ReqlineMessages MISSING_HTTP_KEYWORD
              \<and> message e \<noteq> ReqlineMessages MISSING_URL_KEYWORD))"
proof (intro conjI impI)
  assume "parseReqlineSyntax jsonParse reqlineString = Inr r"
  then show "\<exists>segments m u. splitByPipe (trim reqlineString) = Inr segments \<and> 2 \<le> length segments
         \<and> parseSegmentParts (segments ! 0) = Inr (''HTTP'', m)
         \<and> parseSegmentParts (segments ! 1) = Inr (''URL'', u)
         \<and> method r = Some m \<and> url r = Some u
         \<and> (\<forall>i v. i < length segments \<and> parseSegmentParts (segments ! i) = Inr (''HTTP'', v) \<longrightarrow> i = 0)
         \<and> (\<forall>i v. i < length segments \<and> parseSegmentParts (segments ! i) = Inr (''URL'', v) \<longrightarrow> i = 1)"
    by (rule accepted_positions)
next
  assume a: "trim reqlineString \<noteq> [] \<and> splitByPipe (trim reqlineString) = Inr segs \<and> i < length segs
        \<and> forEach (parseSegment jsonParse) 0 (take i segs) initialState = Inr st
        \<and> parseSegmentParts (segs ! i) = Inr (''HTTP'', v) \<and> i \<noteq> 0"
  then have "parseSegment jsonParse i (segs ! i) st
         = Inl (AppError (ReqlineMessages (if httpFound st then DUPLICATE_HTTP_KEYWORD
                                           else HTTP_MUST_BE_FIRST)) VALIDATIONERR)"
    by (simp add: parseSegment_HTTP_misplaced)
  with a show "parseReqlineSyntax jsonParse reqlineString
          = Inl (AppError (ReqlineMessages (if httpFound st then DUPLICATE_HTTP_KEYWORD
                                            else HTTP_MUST_BE_FIRST)) VALIDATIONERR)"
    using misplaced_segment[of reqlineString segs i jsonParse st] by blast
next
  assume a: "trim reqlineString \<noteq> [] \<and> splitByPipe (trim reqlineString) = Inr segs \<and> i < length segs
        \<and> forEach (parseSegment jsonParse) 0 (take i segs) initialState = Inr st
        \<and> parseSegmentParts (segs ! i) = Inr (''URL'', v) \<and> i \<noteq> 1"
  then have "parseSegment jsonParse i (segs ! i) st
         = Inl (AppError (ReqlineMessages (if urlFound st then DUPLICATE_URL_KEYWORD
                                           else URL_MUST_BE_SECOND)) VALIDATIONERR)"
    by (simp add: parseSegment_URL_misplaced)
  with a show "parseReqlineSyntax jsonParse reqlineString
          = Inl (AppError (ReqlineMessages (if urlFound st then DUPLICATE_URL_KEYWORD
                                            else URL_MUST_BE_SECOND)) VALIDATIONERR)"
    using misplaced_segment[of reqlineString segs i jsonParse st] by blast
next
  assume "trim reqlineString \<noteq> [] \<and> splitByPipe (trim reqlineString) = Inr segs \<and> i < length segs
        \<and> ((parseSegmentParts (segs ! i) = Inr (''HTTP'', v) \<and> i \<noteq> 0)
             \<or> (parseSegmentParts (segs ! i) = Inr (''URL'', v) \<and> i \<noteq> 1))"
  then show "\<exists>e. parseReqlineSyntax jsonParse reqlineString = Inl e
              \<and> message e \<noteq> ReqlineMessages MISSING_HTTP_KEYWORD
              \<and> message e \<noteq> ReqlineMessages MISSING_URL_KEYWORD"
    using misplaced_never_deferred[of reqlineString segs i v jsonParse] by blast
qed

text \<open>A witness for C4: an accepted reqline, a misplaced \<open>HTTP\<close> and a repeated \<open>URL\<close>.\<close>

theorem http_and_url_positions_witness:
  "(\<exists>segments m u.
      splitByPipe (trim ''HTTP GET | URL https://example.com'') = Inr segments
      \<and> 2 \<le> length segments
      \<and> parseSegmentParts (segments ! 0) = Inr (''HTTP'', m)
      \<and> parseSegmentParts (segments ! 1) = Inr (''URL'', u)
      \<and> Some ''GET'' = Some m \<and> Some ''https://example.com'' = Some u)
   \<and> parseReqlineSyntax JSON_parse ''HEADERS {} | HTTP GET''
       = Inl (AppError (ReqlineMessages HTTP_MUST_BE_FIRST) VALIDATIONERR)
   \<and> parseReqlineSyntax JSON_parse ''HTTP GET | URL https://example.com | URL https://example.com''
       = Inl (AppError (ReqlineMessages DUPLICATE_URL_KEYWORD) VALIDATIONERR)"
proof -
  let ?ok = "''HTTP GET | URL https://example.com''"
  let ?r = "\<lparr>method = Some ''GET'', url = Some ''https://example.com'', headers = JObject [],
             query = JObject [], body = JObject []\<rparr>"
  have ok: "parseReqlineSyntax JSON_parse ?ok = Inr ?r" by code_simp
  have p1: "\<exists>segments m u.
      splitByPipe (trim ?ok) = Inr segments \<and> 2 \<le> length segments
      \<and> parseSegmentParts (segments ! 0) = Inr (''HTTP'', m)
      \<and> parseSegmentParts (segments ! 1) = Inr (''URL'', u)
      \<and> Some ''GET'' = Some m \<and> Some ''https://example.com'' = Some u"
    using http_and_url_positions[of JSON_parse ?ok ?r] ok by (simp only: ParsedRequest.simps) blast
  let ?a = "''HEADERS {} | HTTP GET''"
  have a1: "trim ?a \<noteq> []" by code_simp
  have a2: "splitByPipe (trim ?a) = Inr [''HEADERS {}'', ''HTTP GET'']" by code_simp
  have a3: "forEach (parseSegment JSON_parse) 0 (take 1 [''HEADERS {}'', ''HTTP GET'']) initialState
              = Inr initialState"
    by code_simp
  have a4: "parseSegmentParts ([''HEADERS {}'', ''HTTP GET''] ! 1) = Inr (''HTTP'', ''GET'')"
    by code_simp
  have a5: "\<not> httpFound initialState" by (simp add: initialState_def)
  have p2: "parseReqlineSyntax JSON_parse ?a
              = Inl (AppError (ReqlineMessages HTTP_MUST_BE_FIRST) VALIDATIONERR)"
    using http_and_url_positions[of JSON_parse ?a undefined "[''HEADERS {}'', ''HTTP GET'']" 1
        initialState "''GET''"] a1 a2 a3 a4 a5
    by simp
  let ?b = "''HTTP GET | URL https://example.com | URL https://example.com''"
  let ?segs = "[''HTTP GET'', ''URL https://example.com'', ''URL https://example.com'']"
  let ?st = "\<lparr>result = ?r, httpFound = True, urlFound = True\<rparr>"
  have b1: "trim ?b \<noteq> []" by code_simp
  have b2: "splitByPipe (trim ?b) = Inr ?segs" by code_simp
  have b3: "forEach (parseSegment JSON_parse) 0 (take 2 ?segs) initialState = Inr ?st"
    by code_simp
  have b4: "parseSegmentParts (?segs ! 2) = Inr (''URL'', ''https://example.com'')"
    by code_simp
  have p3: "parseReqlineSyntax JSON_parse ?b
              = Inl (AppError (ReqlineMessages DUPLICATE_URL_KEYWORD) VALIDATIONERR)"
    using http_and_url_positions[of JSON_parse ?b undefined ?segs 2 ?st "''https://example.com''"]
      b1 b2 b3 b4
    by simp
  from p1 p2 p3 show ?thesis by blast
qed

text \<open>
  The counterexample to C4 as stated: an \<open>HTTP\<close> segment at index 2 fails with the
  duplicate message, not with the position-specific one.
\<close>

theorem duplicate_HTTP_reported_before_position:
  "splitByPipe (trim ''HTTP GET | URL https://example.com | HTTP GET'')
     = Inr [''HTTP GET'', ''URL https://example.com'', ''HTTP GET'']
   \<and> parseSegmentParts ([''HTTP GET'', ''URL https://example.com'', ''HTTP GET''] ! 2)
     = Inr (''HTTP'', ''GET'')
   \<and> parseReqlineSyntax JSON_parse ''HTTP GET | URL https://example.com | HTTP GET''
     = Inl (AppError ''HTTP keyword can only appear once'' VALIDATIONERR)
   \<and> parseReqlineSyntax JSON_parse ''HTTP GET | URL https://example.com | HTTP GET''
     \<noteq> Inl (AppError (ReqlineMessages HTTP_MUST_BE_FIRST) VALIDATIONERR)"
  by code_simp





text \<open>
  C7. Keyword case is checked before method-value case: the reqline
  \<open>http GET | URL https://example.com\<close> fails with "Keywords must be uppercase" and not
  with the method-case message, whatever \<open>JSON.parse\<close> does; and a segment that starts
  with the lower-case keyword \<open>http\<close> fails with that message for every method text after
  it, because \<open>parseSegmentParts\<close> raises it before \<open>validateHttpMethod\<close> is called.
\<close>

theorem keyword_case_checked_before_method_case:
  "parseReqlineSyntax jsonParse ''http GET | URL https://example.com''
     = Inl (AppError ''Keywords must be uppercase'' VALIDATIONERR)
   \<and> parseReqlineSyntax jsonParse ''http GET | URL https://example.com''
     \<noteq> Inl (AppError (ReqlineMessages HTTP_METHOD_MUST_BE_UPPERCASE) VALIDATIONERR)
   \<and> (\<forall>m index st. parseSegment jsonParse index (''http '' @ m) st
         = Inl (AppError ''Keywords must be uppercase'' VALIDATIONERR))"
proof -
  have a: "parseReqlineSyntax jsonParse ''http GET | URL https://example.com''
             = Inl (AppError ''Keywords must be uppercase'' VALIDATIONERR)"
    by code_simp
  have b: "parseSegmentParts (''http '' @ m)
             = Inl (AppError ''Keywords must be uppercase'' VALIDATIONERR)" for m
    by (simp add: parseSegmentParts_def indexOf_def startsWith_def substring_def
        isUpperCase_def units_def toUpperCase_def upperUnits_def validationError_def
        throwAppError_def Let_def)
  have c: "parseSegment jsonParse index (''http '' @ m) st
             = Inl (AppError ''Keywords must be uppercase'' VALIDATIONERR)" for m index st
    unfolding parseSegment_def b by simp
  from a c show ?thesis by simp
qed




text \<open>
  C9, as amended. A \<open>HEADERS\<close>, \<open>QUERY\<close> or \<open>BODY\<close> segment that contains no run
  of two spaces and whose value text \<open>JSON.parse\<close> accepts is accepted, whatever kind of
  value it is, and the parsed value is assigned to the field as it is: no test that the
  value is an object is made. So \<open>HTTP GET | URL https://example.com | BODY 5\<close>
  validates with \<open>body = 5\<close>.
\<close>

theorem json_value_assigned_directly:
  "(keyword \<in> {''HEADERS'', ''QUERY'', ''BODY''} \<and> \<not> includes_str (keyword @ '' '' @ val) ''  ''
      \<and> jsonParse val = Some j \<longrightarrow>
      parseSegment jsonParse index (keyword @ '' '' @ val) st
        = Inr (st\<lparr>result :=
                   (if keyword = ''HEADERS'' then (result st)\<lparr>headers := j\<rparr>
                    else if keyword = ''QUERY'' then (result st)\<lparr>query := j\<rparr>
                    else (result st)\<lparr>body := j\<rparr>)\<rparr>))
   \<and> parseReqlineSyntax JSON_parse ''HTTP GET | URL https://example.com | BODY 5''
       = Inr \<lparr>method = Some ''GET'', url = Some ''https://example.com'', headers = JObject [],
              query = JObject [], body = JNumber 5\<rparr>"
proof (intro conjI impI)
  assume a: "keyword \<in> {''HEADERS'', ''QUERY'', ''BODY''}
      \<and> \<not> includes_str (keyword @ '' '' @ val) ''  '' \<and> jsonParse val = Some j"
  have up: "isUpperCase ''HEADERS''" "isUpperCase ''QUERY''" "isUpperCase ''BODY''"
    by code_simp+
  from a up have "CHR '' '' \<notin> set keyword" and "isUpperCase keyword" by auto
  with a have parts: "parseSegmentParts (keyword @ '' '' @ val) = Inr (keyword, val)"
    by (simp add: parseSegmentParts_keyword_value)
  have ne: "keyword @ '' '' @ val \<noteq> []" by simp
  from a have "keyword = ''HEADERS'' \<or> keyword = ''QUERY'' \<or> keyword = ''BODY''" by simp
  then show "parseSegment jsonParse index (keyword @ '' '' @ val) st
        = Inr (st\<lparr>result :=
                   (if keyword = ''HEADERS'' then (result st)\<lparr>headers := j\<rparr>
                    else if keyword = ''QUERY'' then (result st)\<lparr>query := j\<rparr>
                    else (result st)\<lparr>body := j\<rparr>)\<rparr>)"
    using a unfolding parseSegment_def parts
    by (auto simp: parseJsonValue_def simp del: append.simps)
next
  show "parseReqlineSyntax JSON_parse ''HTTP GET | URL https://example.com | BODY 5''
       = Inr \<lparr>method = Some ''GET'', url = Some ''https://example.com'', headers = JObject [],
              query = JObject [], body = JNumber 5\<rparr>"
    by code_simp
qed

text \<open>
  A witness for C9: an array as the query.
\<close>

theorem json_value_assigned_directly_witness:
  "parseSegment JSON_parse 2 ''QUERY [1, true, null]'' initialState
     = Inr (initialState\<lparr>result := (result initialState)\<lparr>query := JArray [JNumber 1, JBool True, JNull]\<rparr>\<rparr>)"
proof -
  have h: "''QUERY'' \<in> {''HEADERS'', ''QUERY'', ''BODY''}
           \<and> \<not> includes_str (''QUERY'' @ '' '' @ ''[1, true, null]'') ''  ''
           \<and> JSON_parse ''[1, true, null]'' = Some (JArray [JNumber 1, JBool True, JNull])"
    by code_simp
  from json_value_assigned_directly[of "''QUERY''" "''[1, true, null]''" JSON_parse
      "JArray [JNumber 1, JBool True, JNull]" 2 initialState] h
  show ?thesis by simp
qed

text \<open>
  The counterexample to C9 as stated: the value text \<open>[1,  2]\<close> is valid JSON, and the
  segment is rejected for its two consecutive spaces.
\<close>

theorem valid_JSON_with_two_spaces_rejected:
  "JSON_parse ''[1,  2]'' = Some (JArray [JNumber 1, JNumber 2])
   \<and> parseReqlineSyntax JSON_parse ''HTTP GET | URL https://example.com | BODY [1,  2]''
     = Inl (AppError ''Multiple spaces found where single space expected'' VALIDATIONERR)"
  by code_simp

text \<open>
  C10. Whenever \<open>parseSegments\<close> runs on the segments \<open>splitByPipe\<close> returns for the
  trimmed input, the value \<open>parseSegmentParts\<close> hands on (the argument of
  \<open>validateUrl\<close> for a \<open>URL\<close> segment) is not the empty string: a trimmed segment does
  not end with a space, so something follows its first space.
\<close>

theorem validateUrl_argument_nonempty:
  assumes "splitByPipe (trim reqlineString) = Inr segments"
    and "segment \<in> set segments"
    and "parseSegmentParts segment = Inr (keyword, val)"
  shows "val \<noteq> []"
proof -
  from splitByPipe_Inr[OF assms(1)] assms(2) obtain piece where "segment = trim piece" by auto
  with assms(3) show ?thesis by (simp add: value_nonempty)
qed

text \<open>A witness for C10.\<close>

theorem validateUrl_argument_nonempty_witness:
  "splitByPipe (trim ''HTTP GET | URL https://example.com'')
     = Inr [''HTTP GET'', ''URL https://example.com'']
   \<and> parseSegmentParts ''URL https://example.com'' = Inr (''URL'', ''https://example.com'')
   \<and> ''https://example.com'' \<noteq> []"
proof -
  have h1: "splitByPipe (trim ''HTTP GET | URL https://example.com'')
              = Inr [''HTTP GET'', ''URL https://example.com'']"
    by code_simp
  have h2: "''URL https://example.com'' \<in> set [''HTTP GET'', ''URL https://example.com'']"
    by simp
  have h3: "parseSegmentParts ''URL https://example.com'' = Inr (''URL'', ''https://example.com'')"
    by code_simp
  from validateUrl_argument_nonempty[OF h1 h2 h3] h1 h3 show ?thesis by simp
qed

end
